theory Spec2Isabelle
  imports Main
begin

section \<open>Values\<close>

text \<open>
  Request bodies, data documents and the configuration document are JSON trees. An object
  is the list of its own entries in the order \<open>Object.keys\<close> enumerates them. Numbers
  are restricted to integers: the controller only ever tests a number against zero.
\<close>

datatype json =
    JNull
  | JBool bool
  | JNum int
  | JStr string
  | JArr "json list"
  | JObj "(string \<times> json) list"

text \<open>JavaScript truthiness of a JSON value, as \<open>if (v)\<close> and \<open>!v\<close> evaluate it.\<close>

fun truthy :: "json \<Rightarrow> bool" where
  "truthy JNull = False"
| "truthy (JBool b) = b"
| "truthy (JNum n) = (n \<noteq> 0)"
| "truthy (JStr s) = (s \<noteq> [])"
| "truthy (JArr xs) = True"
| "truthy (JObj kvs) = True"

text \<open>\<open>None\<close> stands for \<open>undefined\<close>.\<close>

fun truthy_opt :: "json option \<Rightarrow> bool" where
  "truthy_opt None = False"
| "truthy_opt (Some v) = truthy v"

text \<open>
  \<open>String.prototype.toUpperCase\<close> on strings of ASCII characters (HTTP method names are
  ASCII tokens); characters other than a..z are left alone.
\<close>

definition upper_char :: "char \<Rightarrow> char" where
  "upper_char c =
     (case map_of (zip ''abcdefghijklmnopqrstuvwxyz'' ''ABCDEFGHIJKLMNOPQRSTUVWXYZ'') c of
        None \<Rightarrow> c
      | Some u \<Rightarrow> u)"

definition toUpperCase :: "string \<Rightarrow> string" where
  "toUpperCase s = map upper_char s"

text \<open>
  A property read \<open>obj[k]\<close> on a plain object: an own entry, else a member inherited from
  \<open>Object.prototype\<close> (a function, or the prototype object for \<open>__proto__\<close>), else
  \<open>undefined\<close>.
\<close>

datatype property = Undefined | Own json | Inherited

definition objectPrototypeKeys :: "string list" where
  "objectPrototypeKeys =
     [''constructor'', ''__proto__'', ''hasOwnProperty'', ''isPrototypeOf'',
      ''propertyIsEnumerable'', ''toLocaleString'', ''toString'', ''valueOf'',
      ''__defineGetter__'', ''__defineSetter__'', ''__lookupGetter__'', ''__lookupSetter__'']"

definition getProp :: "(string \<times> json) list \<Rightarrow> string \<Rightarrow> property" where
  "getProp obj k =
     (case map_of obj k of
        Some v \<Rightarrow> Own v
      | None \<Rightarrow> if k \<in> set objectPrototypeKeys then Inherited else Undefined)"

section \<open>Configuration (services/configuration)\<close>

record NotificationConfig =
  followProp :: string
  notificationMethod :: "string option"
  timeoutInSecond :: int

record PostApi =
  path :: string
  bodyFields :: "(string \<times> bool) list option"
  restrictedBody :: bool
  scheduleNotification :: "NotificationConfig option"

text \<open>
  \<open>bodyFields\<close> is the list of the entries of the object, in the order of
  \<open>Object.keys\<close>, or \<open>None\<close> when the rule declares none. An element of a method's
  list is a string, a \<open>PostApi\<close> instance, or anything else the configuration document
  held at that place.
\<close>

datatype path_config = StringPath string | PostApiRule PostApi | OtherConfig json

datatype method_config = ArrayConfig "path_config list" | NonArray json

text \<open>
  \<open>routes\<close> is the list \<open>Object.entries(configData.routes)\<close>; \<open>document\<close> is
  \<open>configData\<close> read as a generic record (\<open>configData as Record<string, unknown>\<close>).
\<close>

record MockApiConfig =
  apiRoutePrefix :: string
  dbFile :: string
  dbDataPath :: string
  routes :: "(string \<times> method_config) list"
  document :: json

section \<open>Requests, results and effects\<close>

record params =
  githubId :: string
  repository :: string
  branch :: string
  wildcard :: string

record request =
  req_method :: string

type_synonym body = "(string \<times> json) list"

datatype bad_request =
    ConfigFetchErrors
  | ConfigErrors "string list"
  | NotAllowedFields "string list"
  | MandatoryFields "string list"

datatype js_error = InvalidPathTemplate | InvalidURL | JSONSyntaxError

text \<open>
  What \<open>getRepoPage\<close> throws: the four HTTP exceptions it constructs, and the errors of
  library calls (\<open>pathToRegexp\<close>, \<open>new URL\<close>, \<open>JSON.parse\<close>) that it does not catch.
\<close>

datatype exception =
    BadRequestException bad_request
  | MethodNotAllowedException
  | NotFoundException "string option"
  | InternalServerErrorException
  | Uncaught js_error

datatype response = Data json | Params params

text \<open>A timer armed by \<open>setTimeout\<close> together with the \<open>axios.request\<close> it will issue.\<close>

record scheduled_call =
  delay_ms :: int
  call_method :: string
  call_url :: string
  call_timeout :: nat

type_synonym outcome = "(exception + response) \<times> scheduled_call list"

section \<open>Collaborators\<close>

type_synonym candidate = "string \<times> (string \<times> string) list"

text \<open>
  What the controller calls and does not define: \<open>getRawFile\<close> (utils/get-raw-file, the
  fetch over an ordered list of candidates; \<open>None\<close> when it reports errors),
  \<open>ApiConfig.loadConfig\<close>, \<open>getSubRecordFromRoot\<close> (utils/util; \<open>None\<close> for
  \<open>undefined\<close>) and the library functions. \<open>pathToRegexp\<close>, \<open>JSON_parse\<close> and
  \<open>new_URL\<close> yield \<open>None\<close> where the library throws; \<open>new_URL\<close> yields the
  \<open>toString()\<close> of the parsed URL.
\<close>

record env =
  getRawFile :: "candidate list \<Rightarrow> string option"
  loadConfig :: "string \<Rightarrow> string list \<times> MockApiConfig"
  getSubRecordFromRoot :: "string \<Rightarrow> json \<Rightarrow> json option"
  path_join :: "string \<Rightarrow> string \<Rightarrow> string"
  normalizePath :: "string \<Rightarrow> string"
  pathToRegexp :: "string \<Rightarrow> (string \<Rightarrow> bool) option"
  JSON_parse :: "string \<Rightarrow> json option"
  new_URL :: "json \<Rightarrow> string option"

section \<open>The controller (app.controller.ts)\<close>

definition configFileName :: string where
  "configFileName = ''.mockapi.yml''"

definition gitApiHost :: string where
  "gitApiHost = ''https://api.github.com''"

definition gitRowHost :: string where
  "gitRowHost = ''https://raw.githubusercontent.com''"

definition rawAccept :: "(string \<times> string) list" where
  "rawAccept = [(''Accept'', ''application/vnd.github.raw'')]"

definition repoRootUrl1 :: "params \<Rightarrow> string" where
  "repoRootUrl1 ps =
     gitRowHost @ ''/'' @ githubId ps @ ''/'' @ repository ps @ ''/'' @ branch ps"

definition repoRootUrl2 :: "params \<Rightarrow> string" where
  "repoRootUrl2 ps =
     gitApiHost @ ''/repos/'' @ githubId ps @ ''/'' @ repository ps @ ''/contents''"

subsection \<open>getRequestedData\<close>

text \<open>
  Lines 193-223. The result is the value returned (\<open>None\<close> for \<open>undefined\<close>), or the
  \<open>SyntaxError\<close> of \<open>JSON.parse\<close>.
\<close>

definition getRequestedData ::
  "env \<Rightarrow> MockApiConfig \<Rightarrow> string \<Rightarrow> string \<Rightarrow> exception + json option" where
  "getRequestedData e configData root1 root2 =
     (if dbFile configData = configFileName
      then Inr (getSubRecordFromRoot e (dbDataPath configData) (document configData))
      else
        (case getRawFile e
                [(path_join e root1 (dbFile configData), []),
                 (path_join e root2 (dbFile configData), rawAccept)] of
           None \<Rightarrow> Inr (Some JNull)
         | Some rawData \<Rightarrow>
             (case JSON_parse e rawData of
                None \<Rightarrow> Inl (Uncaught JSONSyntaxError)
              | Some doc \<Rightarrow> Inr (getSubRecordFromRoot e (dbDataPath configData) doc))))"

subsection \<open>The body conditions of a PostApi rule\<close>

text \<open>
  \<open>!xs.find(p)\<close> on an array of strings: \<open>find\<close> returns the first element satisfying
  \<open>p\<close> or \<open>undefined\<close>, and \<open>!\<close> negates the truthiness of what it returned; the empty
  string is falsy.
\<close>

definition not_find :: "(string \<Rightarrow> bool) \<Rightarrow> string list \<Rightarrow> bool" where
  "not_find p xs = (case List.find p xs of None \<Rightarrow> True | Some x \<Rightarrow> x = [])"

definition declaredFields :: "PostApi \<Rightarrow> (string \<times> bool) list" where
  "declaredFields pc = (case bodyFields pc of None \<Rightarrow> [] | Some fs \<Rightarrow> fs)"

definition notAllowedFields :: "PostApi \<Rightarrow> body \<Rightarrow> string list" where
  "notAllowedFields pc requestBody =
     filter (\<lambda>k. not_find (\<lambda>e. e = k) (map fst (declaredFields pc))) (map fst requestBody)"

definition missingFields :: "PostApi \<Rightarrow> body \<Rightarrow> string list" where
  "missingFields pc requestBody =
     filter (\<lambda>field. map_of (declaredFields pc) field = Some True
                    \<and> not_find (\<lambda>k. k = field) (map fst requestBody))
            (map fst (declaredFields pc))"

text \<open>Lines 130-153: the exception thrown, if any.\<close>

definition checkBody :: "PostApi \<Rightarrow> body \<Rightarrow> exception option" where
  "checkBody pc requestBody =
     (if restrictedBody pc \<and> notAllowedFields pc requestBody \<noteq> []
      then Some (BadRequestException (NotAllowedFields (notAllowedFields pc requestBody)))
      else if missingFields pc requestBody \<noteq> []
      then Some (BadRequestException (MandatoryFields (missingFields pc requestBody)))
      else None)"

subsection \<open>The scan of a method's list\<close>

text \<open>
  Lines 93-99 and 115-124: the rule's path joined to the prefix, compiled, and run on the
  request path. \<open>None\<close> where \<open>pathToRegexp\<close> throws.
\<close>

definition locationMatches :: "env \<Rightarrow> MockApiConfig \<Rightarrow> string \<Rightarrow> string \<Rightarrow> bool option" where
  "locationMatches e configData rulePath extendedPath =
     (case pathToRegexp e (normalizePath e (path_join e (apiRoutePrefix configData) rulePath)) of
        None \<Rightarrow> None
      | Some locationRegexp \<Rightarrow> Some (locationRegexp extendedPath))"

text \<open>
  Lines 166-178, entered with the data to return. A member inherited from
  \<open>Object.prototype\<close> is truthy, and its string form is not a URL: \<open>new URL\<close> throws.
\<close>

definition notify :: "env \<Rightarrow> PostApi \<Rightarrow> body \<Rightarrow> json \<Rightarrow> outcome" where
  "notify e pc requestBody requestedData =
     (case scheduleNotification pc of
        None \<Rightarrow> (Inr (Data requestedData), [])
      | Some nc \<Rightarrow>
          (case getProp requestBody (followProp nc) of
             Undefined \<Rightarrow> (Inr (Data requestedData), [])
           | Inherited \<Rightarrow> (Inl (Uncaught InvalidURL), [])
           | Own endPoint \<Rightarrow>
               if \<not> truthy endPoint then (Inr (Data requestedData), [])
               else
                 (case new_URL e endPoint of
                    None \<Rightarrow> (Inl (Uncaught InvalidURL), [])
                  | Some url \<Rightarrow>
                      (Inr (Data requestedData),
                       [\<lparr>delay_ms = timeoutInSecond nc * 1000,
                         call_method =
                           (case notificationMethod nc of None \<Rightarrow> ''GET'' | Some m \<Rightarrow> m),
                         call_url = url,
                         call_timeout = 5000\<rparr>]))))"

text \<open>
  One turn of the loop of lines 91-180: \<open>None\<close> when the turn ends in \<open>continue\<close> or
  falls through to the next element, \<open>Some\<close> when it returns or throws.
\<close>

fun tryRule ::
  "env \<Rightarrow> MockApiConfig \<Rightarrow> body \<Rightarrow> string \<Rightarrow> string \<Rightarrow> string \<Rightarrow> path_config
     \<Rightarrow> outcome option" where
  "tryRule e configData requestBody extendedPath root1 root2 (StringPath p) =
     (case locationMatches e configData p extendedPath of
        None \<Rightarrow> Some (Inl (Uncaught InvalidPathTemplate), [])
      | Some matches \<Rightarrow>
          if \<not> matches then None
          else
            (case getRequestedData e configData root1 root2 of
               Inl ex \<Rightarrow> Some (Inl ex, [])
             | Inr requestedData \<Rightarrow>
                 if \<not> truthy_opt requestedData then Some (Inl (NotFoundException None), [])
                 else Some (Inr (Data (the requestedData)), [])))"
| "tryRule e configData requestBody extendedPath root1 root2 (PostApiRule pc) =
     (case locationMatches e configData (path pc) extendedPath of
        None \<Rightarrow> Some (Inl (Uncaught InvalidPathTemplate), [])
      | Some matches \<Rightarrow>
          if \<not> matches then None
          else
            (case checkBody pc requestBody of
               Some ex \<Rightarrow> Some (Inl ex, [])
             | None \<Rightarrow>
                 (case getRequestedData e configData root1 root2 of
                    Inl ex \<Rightarrow> Some (Inl ex, [])
                  | Inr requestedData \<Rightarrow>
                      if \<not> truthy_opt requestedData
                      then Some (Inl (NotFoundException None), [])
                      else Some (notify e pc requestBody (the requestedData)))))"
| "tryRule e configData requestBody extendedPath root1 root2 (OtherConfig v) = None"

definition notFoundMessage :: "string \<Rightarrow> string" where
  "notFoundMessage extendedPath =
     ''The requested entity was not found in the current location: '' @ extendedPath"

fun scanRules ::
  "env \<Rightarrow> MockApiConfig \<Rightarrow> body \<Rightarrow> string \<Rightarrow> string \<Rightarrow> string \<Rightarrow> path_config list
     \<Rightarrow> outcome" where
  "scanRules e configData requestBody extendedPath root1 root2 [] =
     (Inl (NotFoundException (Some (notFoundMessage extendedPath))), [])"
| "scanRules e configData requestBody extendedPath root1 root2 (pathConfig # rest) =
     (case tryRule e configData requestBody extendedPath root1 root2 pathConfig of
        Some result \<Rightarrow> result
      | None \<Rightarrow> scanRules e configData requestBody extendedPath root1 root2 rest)"

subsection \<open>getRepoPage\<close>

text \<open>
  The loop of lines 77-184 over the entries of \<open>routes\<close>, with the statements after it
  (lines 186-190). \<open>methodFound\<close> is the flag of line 76.
\<close>

fun routesLoop ::
  "env \<Rightarrow> MockApiConfig \<Rightarrow> params \<Rightarrow> body \<Rightarrow> string \<Rightarrow> bool
     \<Rightarrow> (string \<times> method_config) list \<Rightarrow> outcome" where
  "routesLoop e configData ps requestBody requestMethod methodFound [] =
     (if \<not> methodFound then (Inl MethodNotAllowedException, []) else (Inr (Params ps), []))"
| "routesLoop e configData ps requestBody requestMethod methodFound ((m, methodConfig) # rest) =
     (if toUpperCase m \<noteq> requestMethod
      then routesLoop e configData ps requestBody requestMethod methodFound rest
      else
        (case methodConfig of
           NonArray v \<Rightarrow> (Inl InternalServerErrorException, [])
         | ArrayConfig rules \<Rightarrow>
             scanRules e configData requestBody (normalizePath e (wildcard ps))
               (repoRootUrl1 ps) (repoRootUrl2 ps) rules))"

text \<open>Lines 74-190: the resolution of a request against a loaded configuration.\<close>

definition resolveRoutes :: "env \<Rightarrow> MockApiConfig \<Rightarrow> params \<Rightarrow> body \<Rightarrow> request \<Rightarrow> outcome" where
  "resolveRoutes e configData ps requestBody req =
     routesLoop e configData ps requestBody (toUpperCase (req_method req)) False (routes configData)"

text \<open>Lines 41-191.\<close>

definition getRepoPage :: "env \<Rightarrow> params \<Rightarrow> body \<Rightarrow> request \<Rightarrow> outcome" where
  "getRepoPage e ps requestBody req =
     (case getRawFile e
             [(repoRootUrl1 ps @ ''/'' @ configFileName, []),
              (repoRootUrl2 ps @ ''/'' @ configFileName, rawAccept)] of
        None \<Rightarrow> (Inl (BadRequestException ConfigFetchErrors), [])
      | Some rawFile \<Rightarrow>
          (case loadConfig e rawFile of
             (errors, configData) \<Rightarrow>
               if errors \<noteq> [] then (Inl (BadRequestException (ConfigErrors errors)), [])
               else resolveRoutes e configData ps requestBody req))"

section \<open>Vocabulary of the statements\<close>

text \<open>
  The entry of \<open>routes\<close> the loop of line 77 stops at: the first whose key, in upper
  case, is the request method in upper case.
\<close>

definition methodEntry ::
  "string \<Rightarrow> (string \<times> method_config) list \<Rightarrow> (string \<times> method_config) option" where
  "methodEntry m rs = List.find (\<lambda>entry. toUpperCase (fst entry) = toUpperCase m) rs"

definition rulePath :: "path_config \<Rightarrow> string option" where
  "rulePath r =
     (case r of
        StringPath p \<Rightarrow> Some p
      | PostApiRule pc \<Rightarrow> Some (path pc)
      | OtherConfig v \<Rightarrow> None)"

text \<open>
  An element the scan passes over: not a rule, or a rule whose template compiles and
  does not match the request path.
\<close>

definition passedOver :: "env \<Rightarrow> MockApiConfig \<Rightarrow> string \<Rightarrow> path_config \<Rightarrow> bool" where
  "passedOver e configData extendedPath r =
     (case rulePath r of
        None \<Rightarrow> True
      | Some p \<Rightarrow> locationMatches e configData p extendedPath = Some False)"

text \<open>A rule whose template compiles and matches the request path.\<close>

definition pathMatched :: "env \<Rightarrow> MockApiConfig \<Rightarrow> string \<Rightarrow> path_config \<Rightarrow> bool" where
  "pathMatched e configData extendedPath r =
     (case rulePath r of
        None \<Rightarrow> False
      | Some p \<Rightarrow> locationMatches e configData p extendedPath = Some True)"

section \<open>A deep-path walker\<close>

text \<open>
  Modelled from the spec: \<open>getSubRecordFromRoot\<close> (utils/util) is not among the sources.
  The walker follows a dot/slash separated path down a tree of mappings and sequences
  and returns the nested value, or absent (\<open>None\<close>) when the path has no corresponding
  node. Empty segments are dropped; a sequence is indexed by a decimal segment. It is the
  extractor of the example environment below.
\<close>

fun splitSegments :: "string \<Rightarrow> string \<Rightarrow> string list" where
  "splitSegments acc [] = [rev acc]"
| "splitSegments acc (c # cs) =
     (if c = CHR ''.'' \<or> c = CHR ''/'' then rev acc # splitSegments [] cs
      else splitSegments (c # acc) cs)"

definition pathSegments :: "string \<Rightarrow> string list" where
  "pathSegments p = filter (\<lambda>s. s \<noteq> []) (splitSegments [] p)"

definition digit_of :: "char \<Rightarrow> nat option" where
  "digit_of c = map_of (zip ''0123456789'' [0, 1, 2, 3, 4, 5, 6, 7, 8, 9]) c"

fun parseIndex :: "nat \<Rightarrow> string \<Rightarrow> nat option" where
  "parseIndex acc [] = Some acc"
| "parseIndex acc (c # cs) =
     (case digit_of c of None \<Rightarrow> None | Some d \<Rightarrow> parseIndex (10 * acc + d) cs)"

fun child :: "string \<Rightarrow> json \<Rightarrow> json option" where
  "child s (JObj kvs) = map_of kvs s"
| "child s (JArr xs) =
     (case parseIndex 0 s of
        None \<Rightarrow> None
      | Some i \<Rightarrow> if i < length xs then Some (xs ! i) else None)"
| "child s v = None"

fun descend :: "string list \<Rightarrow> json \<Rightarrow> json option" where
  "descend [] v = Some v"
| "descend (s # ss) v = (case child s v of None \<Rightarrow> None | Some w \<Rightarrow> descend ss w)"

definition walkPath :: "string \<Rightarrow> json \<Rightarrow> json option" where
  "walkPath p root = descend (pathSegments p) root"

section \<open>An example configuration and environment\<close>

definition sample_guarded :: PostApi where
  "sample_guarded =
     \<lparr>path = ''items'',
      bodyFields = Some [(''a'', True), (''b'', False), (''cb'', False)],
      restrictedBody = True,
      scheduleNotification =
        Some \<lparr>followProp = ''cb'', notificationMethod = None, timeoutInSecond = 2\<rparr>\<rparr>"

definition sample_rules :: "path_config list" where
  "sample_rules =
     [StringPath ''users'', OtherConfig (JNum 3), PostApiRule sample_guarded, StringPath ''items'']"

definition sample_document :: json where
  "sample_document =
     JObj [(''apiRoutePrefix'', JStr ''/api''),
           (''dbFile'', JStr ''.mockapi.yml''),
           (''dbDataPath'', JStr ''data/items''),
           (''data'', JObj [(''items'', JArr [JNum 1, JNum 2])])]"

definition sample_config :: MockApiConfig where
  "sample_config =
     \<lparr>apiRoutePrefix = ''/api'',
      dbFile = ''.mockapi.yml'',
      dbDataPath = ''data/items'',
      routes = [(''get'', NonArray (JStr ''items'')), (''post'', ArrayConfig sample_rules)],
      document = sample_document\<rparr>"

text \<open>
  The environment: the file \<open>db.json\<close> is served by the raw-content mirror and holds
  \<open>[1, 2]\<close>, no other file is; paths are joined with a slash; a template without
  parentheses compiles to the case-insensitive comparison with itself; a string that
  starts with \<open>https://\<close> is a URL.
\<close>

definition sample_env :: env where
  "sample_env =
     \<lparr>getRawFile =
        (\<lambda>candidates.
           if ''https://raw.githubusercontent.com/u/r/main/db.json'' \<in> set (map fst candidates)
           then Some ''[1, 2]'' else None),
      loadConfig = (\<lambda>rawFile. ([], sample_config)),
      getSubRecordFromRoot = walkPath,
      path_join = (\<lambda>a b. a @ ''/'' @ b),
      normalizePath =
        (\<lambda>p. case p of [] \<Rightarrow> ''/'' | ch # cs \<Rightarrow> if ch = CHR ''/'' then p else CHR ''/'' # p),
      pathToRegexp =
        (\<lambda>t. if CHR ''('' \<in> set t then None
             else Some (\<lambda>p. toUpperCase p = toUpperCase t)),
      JSON_parse =
        (\<lambda>rawData. if rawData = ''[1, 2]'' then Some (JArr [JNum 1, JNum 2]) else None),
      new_URL =
        (\<lambda>v. case v of
                JStr s \<Rightarrow> if take 8 s = ''https://'' then Some s else None
              | _ \<Rightarrow> None)\<rparr>"

definition sample_params :: params where
  "sample_params =
     \<lparr>githubId = ''u'', repository = ''r'', branch = ''main'', wildcard = ''api/items''\<rparr>"

definition sample_post :: request where
  "sample_post = \<lparr>req_method = ''POST''\<rparr>"

text \<open>Two rules whose only declared body field has the empty name.\<close>

definition unnamed_mandatory :: PostApi where
  "unnamed_mandatory =
     \<lparr>path = ''items'', bodyFields = Some [([], True)], restrictedBody = False,
      scheduleNotification = None\<rparr>"

definition unnamed_optional :: PostApi where
  "unnamed_optional =
     \<lparr>path = ''items'', bodyFields = Some [([], False)], restrictedBody = True,
      scheduleNotification = None\<rparr>"

section \<open>The loops\<close>

lemma not_find_iff: "not_find (\<lambda>x. x = k) xs = (k \<notin> set xs \<or> k = [])"
  by (induction xs) (auto simp: not_find_def split: option.splits)

lemma methodEntry_key:
  "methodEntry m rs = Some (k, mc) \<Longrightarrow> toUpperCase k = toUpperCase m"
  by (induction rs) (auto simp: methodEntry_def split: if_splits)

lemma routesLoop_no_entry:
  "methodEntry m rs = None \<Longrightarrow>
   routesLoop e c ps b (toUpperCase m) False rs = (Inl MethodNotAllowedException, [])"
  by (induction rs) (auto simp: methodEntry_def split: if_splits)

lemma routesLoop_entry:
  "methodEntry m rs = Some (k, mc) \<Longrightarrow>
   routesLoop e c ps b (toUpperCase m) mf rs =
     (case mc of
        NonArray v \<Rightarrow> (Inl InternalServerErrorException, [])
      | ArrayConfig rules \<Rightarrow>
          scanRules e c b (normalizePath e (wildcard ps)) (repoRootUrl1 ps) (repoRootUrl2 ps)
            rules)"
  by (induction rs) (auto simp: methodEntry_def split: if_splits)

lemma tryRule_passedOver: "passedOver e c ep r \<Longrightarrow> tryRule e c b ep r1 r2 r = None"
  by (cases r) (auto simp: passedOver_def rulePath_def)

lemma scanRules_passedOver:
  "\<forall>x\<in>set pre. passedOver e c ep x \<Longrightarrow>
   scanRules e c b ep r1 r2 (pre @ rs) = scanRules e c b ep r1 r2 rs"
  by (induction pre) (auto simp: tryRule_passedOver)

lemma tryRule_pathMatched:
  "pathMatched e c ep r \<Longrightarrow> \<exists>res. tryRule e c b ep r1 r2 r = Some res"
  by (cases r) (auto simp: pathMatched_def rulePath_def split: option.splits sum.splits)

lemma scanRules_commit:
  "\<forall>x\<in>set pre. passedOver e c ep x \<Longrightarrow> pathMatched e c ep r \<Longrightarrow>
   tryRule e c b ep r1 r2 r = Some (scanRules e c b ep r1 r2 (pre @ r # post))"
  using tryRule_pathMatched[of e c ep r b r1 r2]
  by (auto simp: scanRules_passedOver)

text \<open>An element that is not a rule takes no part in the scan.\<close>

lemma scanRules_other:
  "scanRules e c b ep r1 r2 (pre @ OtherConfig v # post) = scanRules e c b ep r1 r2 (pre @ post)"
  by (induction pre) (auto split: option.splits)

lemma routesLoop_other:
  "routesLoop e c ps b rm mf (rpre @ (k, ArrayConfig (pre @ OtherConfig v # post)) # rpost)
   = routesLoop e c ps b rm mf (rpre @ (k, ArrayConfig (pre @ post)) # rpost)"
  by (induction rpre) (auto simp: scanRules_other)

text \<open>The scan never reads \<open>routes\<close>.\<close>

lemma getRequestedData_routes:
  "getRequestedData e (c\<lparr>routes := x\<rparr>) r1 r2 = getRequestedData e c r1 r2"
  by (auto simp: getRequestedData_def split: option.splits)

lemma locationMatches_routes:
  "locationMatches e (c\<lparr>routes := x\<rparr>) p ep = locationMatches e c p ep"
  by (simp add: locationMatches_def)

lemma tryRule_routes:
  "tryRule e (c\<lparr>routes := x\<rparr>) b ep r1 r2 r = tryRule e c b ep r1 r2 r"
  by (cases r)
    (auto simp: locationMatches_routes getRequestedData_routes split: option.splits)

lemma scanRules_routes:
  "scanRules e (c\<lparr>routes := x\<rparr>) b ep r1 r2 rs = scanRules e c b ep r1 r2 rs"
  by (induction rs) (auto simp: tryRule_routes split: option.splits)

lemma routesLoop_routes:
  "routesLoop e (c\<lparr>routes := x\<rparr>) ps b rm mf rs = routesLoop e c ps b rm mf rs"
  by (induction rs) (auto simp: scanRules_routes split: method_config.splits)

text \<open>
  When the method's list is \<open>pre @ r # post\<close>, the scan passes over \<open>pre\<close> and \<open>r\<close>
  matches, the result of the request is the result of the turn of the loop on \<open>r\<close>.
\<close>

lemma tryRule_commit:
  assumes "methodEntry (req_method req) (routes c) = Some (k, ArrayConfig (pre @ r # post))"
      and "\<forall>x\<in>set pre. passedOver e c (normalizePath e (wildcard ps)) x"
      and "pathMatched e c (normalizePath e (wildcard ps)) r"
  shows "tryRule e c b (normalizePath e (wildcard ps)) (repoRootUrl1 ps) (repoRootUrl2 ps) r
           = Some (resolveRoutes e c ps b req)"
proof -
  have "resolveRoutes e c ps b req =
          scanRules e c b (normalizePath e (wildcard ps)) (repoRootUrl1 ps) (repoRootUrl2 ps)
            (pre @ r # post)"
    using assms(1) by (simp add: resolveRoutes_def routesLoop_entry)
  then show ?thesis
    using scanRules_commit[OF assms(2,3)] by simp
qed

lemma getRepoPage_loaded:
  assumes "getRawFile e
             [(repoRootUrl1 ps @ ''/'' @ configFileName, []),
              (repoRootUrl2 ps @ ''/'' @ configFileName, rawAccept)] = Some rawFile"
      and "loadConfig e rawFile = ([], c)"
  shows "getRepoPage e ps b req = resolveRoutes e c ps b req"
  using assms by (simp add: getRepoPage_def)

text \<open>Evaluation of the example.\<close>

lemmas sample_simps =
  sample_guarded_def sample_rules_def sample_document_def sample_config_def sample_env_def
  sample_params_def sample_post_def unnamed_mandatory_def unnamed_optional_def
  methodEntry_def passedOver_def pathMatched_def rulePath_def locationMatches_def
  toUpperCase_def upper_char_def repoRootUrl1_def repoRootUrl2_def gitRowHost_def
  gitApiHost_def configFileName_def rawAccept_def

lemmas body_simps =
  checkBody_def notAllowedFields_def missingFields_def declaredFields_def not_find_def

lemmas walk_simps =
  walkPath_def pathSegments_def digit_of_def

section \<open>Selection of the rule\<close>

text \<open>
  C1. When the request method matches a key of \<open>routes\<close>, the rules of that method's
  list are tested in declared order and the first rule whose compiled template matches
  the request path commits the resolution: the outcome is the outcome of that rule's turn
  of the loop, the same as if it were the only rule of the list, whatever follows it.
  When the committed rule is a Guarded Rule whose body check fails, the resolution
  aborts with that bad-request error instead of falling through.
\<close>

theorem first_match_commits:
  assumes "methodEntry (req_method req) (routes c) = Some (k, ArrayConfig (pre @ r # post))"
      and "\<forall>x\<in>set pre. passedOver e c (normalizePath e (wildcard ps)) x"
      and "pathMatched e c (normalizePath e (wildcard ps)) r"
  shows "tryRule e c b (normalizePath e (wildcard ps)) (repoRootUrl1 ps) (repoRootUrl2 ps) r
           = Some (resolveRoutes e c ps b req)
         \<and> resolveRoutes e (c\<lparr>routes := [(k, ArrayConfig [r])]\<rparr>) ps b req
             = resolveRoutes e c ps b req
         \<and> (\<forall>pc ex. r = PostApiRule pc \<and> checkBody pc b = Some ex \<longrightarrow>
               resolveRoutes e c ps b req = (Inl ex, [])
               \<and> (\<exists>names. ex = BadRequestException (NotAllowedFields names)
                          \<or> ex = BadRequestException (MandatoryFields names)))"
proof -
  let ?ep = "normalizePath e (wildcard ps)"
  let ?r1 = "repoRootUrl1 ps"
  let ?r2 = "repoRootUrl2 ps"
  have res: "resolveRoutes e c ps b req = scanRules e c b ?ep ?r1 ?r2 (pre @ r # post)"
    using assms(1) by (simp add: resolveRoutes_def routesLoop_entry)
  have commit: "tryRule e c b ?ep ?r1 ?r2 r = Some (resolveRoutes e c ps b req)"
    using scanRules_commit[OF assms(2,3)] res by simp
  have up: "toUpperCase k = toUpperCase (req_method req)"
    using assms(1) by (rule methodEntry_key)
  have alone: "resolveRoutes e (c\<lparr>routes := [(k, ArrayConfig [r])]\<rparr>) ps b req
                 = resolveRoutes e c ps b req"
    using commit up by (simp add: resolveRoutes_def scanRules_routes tryRule_routes)
  have abort: "resolveRoutes e c ps b req = (Inl ex, [])
               \<and> (\<exists>names. ex = BadRequestException (NotAllowedFields names)
                          \<or> ex = BadRequestException (MandatoryFields names))"
    if "r = PostApiRule pc" and "checkBody pc b = Some ex" for pc ex
  proof
    have "locationMatches e c (path pc) ?ep = Some True"
      using assms(3) that(1) by (simp add: pathMatched_def rulePath_def)
    then have "tryRule e c b ?ep ?r1 ?r2 r = Some (Inl ex, [])"
      using that by simp
    then show "resolveRoutes e c ps b req = (Inl ex, [])"
      using commit by simp
    show "\<exists>names. ex = BadRequestException (NotAllowedFields names)
                 \<or> ex = BadRequestException (MandatoryFields names)"
      using that(2) by (auto simp: checkBody_def split: if_splits)
  qed
  show ?thesis using commit alone abort by blast
qed

text \<open>
  The example: the Guarded Rule for \<open>items\<close> stands before the Simple Rule for
  \<open>items\<close>; a request without the mandatory field \<open>a\<close> is refused and the Simple Rule
  is not reached.
\<close>

theorem first_match_commits_witness:
  "methodEntry (req_method sample_post) (routes sample_config)
     = Some (''post'', ArrayConfig ([StringPath ''users'', OtherConfig (JNum 3)]
                                     @ PostApiRule sample_guarded # [StringPath ''items'']))
   \<and> passedOver sample_env sample_config (normalizePath sample_env (wildcard sample_params))
        (StringPath ''users'')
   \<and> passedOver sample_env sample_config (normalizePath sample_env (wildcard sample_params))
        (OtherConfig (JNum 3))
   \<and> pathMatched sample_env sample_config (normalizePath sample_env (wildcard sample_params))
        (PostApiRule sample_guarded)
   \<and> pathMatched sample_env sample_config (normalizePath sample_env (wildcard sample_params))
        (StringPath ''items'')
   \<and> checkBody sample_guarded [] = Some (BadRequestException (MandatoryFields [''a'']))
   \<and> resolveRoutes sample_env sample_config sample_params [] sample_post
        = (Inl (BadRequestException (MandatoryFields [''a''])), [])"
proof -
  have h1: "methodEntry (req_method sample_post) (routes sample_config)
     = Some (''post'', ArrayConfig ([StringPath ''users'', OtherConfig (JNum 3)]
                                     @ PostApiRule sample_guarded # [StringPath ''items'']))"
    by (simp add: sample_simps)
  have h2: "\<forall>x\<in>set [StringPath ''users'', OtherConfig (JNum 3)].
          passedOver sample_env sample_config (normalizePath sample_env (wildcard sample_params)) x"
    by (simp add: sample_simps)
  have h3: "pathMatched sample_env sample_config (normalizePath sample_env (wildcard sample_params))
        (PostApiRule sample_guarded)"
    by (simp add: sample_simps)
  have h3': "pathMatched sample_env sample_config (normalizePath sample_env (wildcard sample_params))
        (StringPath ''items'')"
    by (simp add: sample_simps)
  have h4: "checkBody sample_guarded [] = Some (BadRequestException (MandatoryFields [''a'']))"
    by (simp add: sample_guarded_def body_simps)
  show ?thesis
    using first_match_commits[OF h1 h2 h3, of "[]"] h1 h2 h3 h3' h4 by simp
qed

text \<open>
  With the two rules in the other order the same request is served by the Simple Rule:
  the order of the list decides.
\<close>

lemma reordered_rules_example:
  "resolveRoutes sample_env
     (sample_config\<lparr>routes :=
        [(''post'', ArrayConfig [StringPath ''items'', PostApiRule sample_guarded])]\<rparr>)
     sample_params [] sample_post
   = (Inr (Data (JArr [JNum 1, JNum 2])), [])"
  by (simp add: resolveRoutes_def getRequestedData_def sample_simps walk_simps)

text \<open>
  C2. If no key of \<open>routes\<close> equals the request method under case-insensitive
  comparison, the resolution yields method-not-allowed, whatever the path and the body.
\<close>

theorem no_method_entry:
  assumes "\<forall>entry\<in>set (routes c). toUpperCase (fst entry) \<noteq> toUpperCase (req_method req)"
  shows "resolveRoutes e c ps b req = (Inl MethodNotAllowedException, [])"
proof -
  have "methodEntry (req_method req) (routes c) = None"
    using assms by (force simp: methodEntry_def find_None_iff)
  then show ?thesis
    by (simp add: resolveRoutes_def routesLoop_no_entry)
qed

theorem no_method_entry_witness:
  "map fst (routes sample_config) = [''get'', ''post'']
   \<and> toUpperCase ''get'' \<noteq> toUpperCase ''put''
   \<and> toUpperCase ''post'' \<noteq> toUpperCase ''put''
   \<and> resolveRoutes sample_env sample_config sample_params [(''a'', JNum 1)] \<lparr>req_method = ''put''\<rparr>
        = (Inl MethodNotAllowedException, [])"
proof -
  have h: "\<forall>entry\<in>set (routes sample_config).
             toUpperCase (fst entry) \<noteq> toUpperCase (req_method \<lparr>req_method = ''put''\<rparr>)"
    by (simp add: sample_simps)
  show ?thesis
    using no_method_entry[OF h, of sample_env sample_params "[(''a'', JNum 1)]"]
    by (simp add: sample_simps)
qed

text \<open>
  C9. When the list under the method key the request matches is not a sequence, the
  resolution fails with the internal server error, which is neither the
  method-not-allowed nor a not-found outcome.
\<close>

theorem non_sequence_list:
  assumes "methodEntry (req_method req) (routes c) = Some (k, NonArray v)"
  shows "resolveRoutes e c ps b req = (Inl InternalServerErrorException, [])
         \<and> fst (resolveRoutes e c ps b req) \<noteq> Inl MethodNotAllowedException
         \<and> (\<forall>msg. fst (resolveRoutes e c ps b req) \<noteq> Inl (NotFoundException msg))"
  using assms by (simp add: resolveRoutes_def routesLoop_entry)

theorem non_sequence_list_witness:
  "methodEntry (req_method \<lparr>req_method = ''Get''\<rparr>) (routes sample_config)
     = Some (''get'', NonArray (JStr ''items''))
   \<and> resolveRoutes sample_env sample_config sample_params [] \<lparr>req_method = ''Get''\<rparr>
        = (Inl InternalServerErrorException, [])"
proof -
  have h: "methodEntry (req_method \<lparr>req_method = ''Get''\<rparr>) (routes sample_config)
             = Some (''get'', NonArray (JStr ''items''))"
    by (simp add: sample_simps)
  show ?thesis
    using non_sequence_list[OF h, of sample_env sample_params "[]"] h by simp
qed

text \<open>
  C10. An element of the method's list that is neither a string nor a \<open>PostApi\<close>
  instance is silently skipped: it never matches and never produces an error, and the
  resolution is the resolution of the configuration without the element.
\<close>

theorem other_element_skipped:
  "tryRule e c b ep r1 r2 (OtherConfig v) = None
   \<and> scanRules e c b ep r1 r2 (pre @ OtherConfig v # post)
       = scanRules e c b ep r1 r2 (pre @ post)
   \<and> resolveRoutes e
         (c\<lparr>routes := rpre @ (k, ArrayConfig (pre @ OtherConfig v # post)) # rpost\<rparr>) ps b req
       = resolveRoutes e (c\<lparr>routes := rpre @ (k, ArrayConfig (pre @ post)) # rpost\<rparr>) ps b req"
  by (simp add: scanRules_other resolveRoutes_def routesLoop_routes routesLoop_other)

theorem other_element_skipped_witness:
  "resolveRoutes sample_env
     (sample_config\<lparr>routes :=
        [(''get'', NonArray (JStr ''items''))]
        @ (''post'', ArrayConfig ([StringPath ''users''] @ OtherConfig (JNum 3)
             # [PostApiRule sample_guarded, StringPath ''items''])) # []\<rparr>)
     sample_params [(''a'', JNum 1)] sample_post
   = resolveRoutes sample_env
       (sample_config\<lparr>routes :=
          [(''get'', NonArray (JStr ''items''))]
          @ (''post'', ArrayConfig ([StringPath ''users'']
               @ [PostApiRule sample_guarded, StringPath ''items''])) # []\<rparr>)
       sample_params [(''a'', JNum 1)] sample_post"
  using other_element_skipped[of sample_env sample_config "[(''a'', JNum 1)]" "[]" "[]" "[]"
      "JNum 3" "[StringPath ''users'']" "[PostApiRule sample_guarded, StringPath ''items'']"
      "[(''get'', NonArray (JStr ''items''))]" "''post''" "[]" sample_params sample_post]
  by simp

section \<open>The response data\<close>

text \<open>
  C6. When \<open>dbFile\<close> is the name of the configuration file and the extraction at
  \<open>dbDataPath\<close> finds a node of the configuration document, the value located is that
  node itself, whatever the fetch and the parser would do: neither is consulted.
\<close>

theorem config_document_roundtrip:
  assumes "dbFile c = configFileName"
      and "getSubRecordFromRoot e (dbDataPath c) (document c) = Some node"
  shows "getRequestedData (e\<lparr>getRawFile := fetch, JSON_parse := parse\<rparr>) c root1 root2
           = Inr (Some node)"
  using assms by (simp add: getRequestedData_def)

theorem config_document_roundtrip_witness:
  "dbFile sample_config = configFileName
   \<and> getSubRecordFromRoot sample_env (dbDataPath sample_config) (document sample_config)
       = Some (JArr [JNum 1, JNum 2])
   \<and> getRequestedData (sample_env\<lparr>getRawFile := (\<lambda>cs. None), JSON_parse := (\<lambda>raw. None)\<rparr>)
         sample_config (repoRootUrl1 sample_params) (repoRootUrl2 sample_params)
       = Inr (Some (JArr [JNum 1, JNum 2]))"
proof -
  have h1: "dbFile sample_config = configFileName"
    by (simp add: sample_simps)
  have h2: "getSubRecordFromRoot sample_env (dbDataPath sample_config) (document sample_config)
              = Some (JArr [JNum 1, JNum 2])"
    by (simp add: sample_simps walk_simps)
  show ?thesis
    using config_document_roundtrip[OF h1 h2, of "\<lambda>cs. None" "\<lambda>raw. None"] h1 h2 by simp
qed

text \<open>
  C7. For a matched rule (a Guarded Rule's body check passed) of a configuration whose
  \<open>dbFile\<close> is an external file: if the fetch over the two candidates reports errors, or
  it succeeds, the payload parses and the extraction at \<open>dbDataPath\<close> finds no node, the
  resolution yields the not-found error.
\<close>

theorem lookup_failure_not_found:
  assumes "methodEntry (req_method req) (routes c) = Some (k, ArrayConfig (pre @ r # post))"
      and "\<forall>x\<in>set pre. passedOver e c (normalizePath e (wildcard ps)) x"
      and "pathMatched e c (normalizePath e (wildcard ps)) r"
      and "\<forall>pc. r = PostApiRule pc \<longrightarrow> checkBody pc b = None"
      and "dbFile c \<noteq> configFileName"
      and "getRawFile e
             [(path_join e (repoRootUrl1 ps) (dbFile c), []),
              (path_join e (repoRootUrl2 ps) (dbFile c), rawAccept)] = None
           \<or> (\<exists>rawData doc.
                 getRawFile e
                   [(path_join e (repoRootUrl1 ps) (dbFile c), []),
                    (path_join e (repoRootUrl2 ps) (dbFile c), rawAccept)] = Some rawData
                 \<and> JSON_parse e rawData = Some doc
                 \<and> getSubRecordFromRoot e (dbDataPath c) doc = None)"
  shows "resolveRoutes e c ps b req = (Inl (NotFoundException None), [])"
proof -
  let ?ep = "normalizePath e (wildcard ps)"
  have falsy: "\<exists>d. getRequestedData e c (repoRootUrl1 ps) (repoRootUrl2 ps) = Inr d
                   \<and> \<not> truthy_opt d"
    using assms(5,6) by (auto simp: getRequestedData_def)
  have "tryRule e c b ?ep (repoRootUrl1 ps) (repoRootUrl2 ps) r
          = Some (Inl (NotFoundException None), [])"
  proof (cases r)
    case (StringPath p)
    then have "locationMatches e c p ?ep = Some True"
      using assms(3) by (simp add: pathMatched_def rulePath_def)
    then show ?thesis using StringPath falsy by auto
  next
    case (PostApiRule pc)
    then have "locationMatches e c (path pc) ?ep = Some True"
      using assms(3) by (simp add: pathMatched_def rulePath_def)
    moreover have "checkBody pc b = None"
      using assms(4) PostApiRule by simp
    ultimately show ?thesis using PostApiRule falsy by auto
  next
    case (OtherConfig v)
    then show ?thesis using assms(3) by (simp add: pathMatched_def rulePath_def)
  qed
  then show ?thesis
    using tryRule_commit[OF assms(1,2,3), of b] by simp
qed

text \<open>
  The example, twice: \<open>lost.json\<close> cannot be fetched; \<open>db.json\<close> can, and holds no
  element 5.
\<close>

theorem lookup_failure_not_found_witness:
  "getRawFile sample_env
     [(path_join sample_env (repoRootUrl1 sample_params) ''lost.json'', []),
      (path_join sample_env (repoRootUrl2 sample_params) ''lost.json'', rawAccept)] = None
   \<and> resolveRoutes sample_env (sample_config\<lparr>dbFile := ''lost.json''\<rparr>) sample_params
        [(''a'', JNum 1)] sample_post = (Inl (NotFoundException None), [])
   \<and> getRawFile sample_env
        [(path_join sample_env (repoRootUrl1 sample_params) ''db.json'', []),
         (path_join sample_env (repoRootUrl2 sample_params) ''db.json'', rawAccept)]
       = Some ''[1, 2]''
   \<and> JSON_parse sample_env ''[1, 2]'' = Some (JArr [JNum 1, JNum 2])
   \<and> getSubRecordFromRoot sample_env ''5'' (JArr [JNum 1, JNum 2]) = None
   \<and> resolveRoutes sample_env (sample_config\<lparr>dbFile := ''db.json'', dbDataPath := ''5''\<rparr>)
        sample_params [(''a'', JNum 1)] sample_post = (Inl (NotFoundException None), [])"
proof -
  let ?c1 = "sample_config\<lparr>dbFile := ''lost.json''\<rparr>"
  let ?c2 = "sample_config\<lparr>dbFile := ''db.json'', dbDataPath := ''5''\<rparr>"
  let ?ep = "normalizePath sample_env (wildcard sample_params)"
  let ?pre = "[StringPath ''users'', OtherConfig (JNum 3)]"
  let ?post = "[StringPath ''items'']"
  let ?b = "[(''a'', JNum 1)]"
  have e1: "methodEntry (req_method sample_post) (routes ?c1)
              = Some (''post'', ArrayConfig (?pre @ PostApiRule sample_guarded # ?post))"
    by (simp add: sample_simps)
  have e2: "methodEntry (req_method sample_post) (routes ?c2)
              = Some (''post'', ArrayConfig (?pre @ PostApiRule sample_guarded # ?post))"
    by (simp add: sample_simps)
  have p1: "\<forall>x\<in>set ?pre. passedOver sample_env ?c1 ?ep x"
    by (simp add: sample_simps)
  have p2: "\<forall>x\<in>set ?pre. passedOver sample_env ?c2 ?ep x"
    by (simp add: sample_simps)
  have m1: "pathMatched sample_env ?c1 ?ep (PostApiRule sample_guarded)"
    by (simp add: sample_simps)
  have m2: "pathMatched sample_env ?c2 ?ep (PostApiRule sample_guarded)"
    by (simp add: sample_simps)
  have v: "\<forall>pc. PostApiRule sample_guarded = PostApiRule pc \<longrightarrow> checkBody pc ?b = None"
    by (simp add: sample_guarded_def body_simps)
  have d1: "dbFile ?c1 \<noteq> configFileName"
    by (simp add: sample_simps)
  have d2: "dbFile ?c2 \<noteq> configFileName"
    by (simp add: sample_simps)
  have f1: "getRawFile sample_env
              [(path_join sample_env (repoRootUrl1 sample_params) ''lost.json'', []),
               (path_join sample_env (repoRootUrl2 sample_params) ''lost.json'', rawAccept)] = None"
    by (simp add: sample_simps)
  have f2: "getRawFile sample_env
              [(path_join sample_env (repoRootUrl1 sample_params) ''db.json'', []),
               (path_join sample_env (repoRootUrl2 sample_params) ''db.json'', rawAccept)]
             = Some ''[1, 2]''"
    by (simp add: sample_simps)
  have g2: "JSON_parse sample_env ''[1, 2]'' = Some (JArr [JNum 1, JNum 2])"
    by (simp add: sample_simps)
  have x2: "getSubRecordFromRoot sample_env ''5'' (JArr [JNum 1, JNum 2]) = None"
    by (simp add: sample_simps walk_simps)
  have r1: "resolveRoutes sample_env ?c1 sample_params ?b sample_post
              = (Inl (NotFoundException None), [])"
    using f1 by (intro lookup_failure_not_found[OF e1 p1 m1 v d1]) simp
  have r2: "resolveRoutes sample_env ?c2 sample_params ?b sample_post
              = (Inl (NotFoundException None), [])"
    using f2 g2 x2 by (intro lookup_failure_not_found[OF e2 p2 m2 v d2]) simp
  show ?thesis
    using f1 f2 g2 x2 r1 r2 by simp
qed

section \<open>The body conditions\<close>

text \<open>
  What the two filters of lines 133-135 and 142-146 collect. A key that is present is
  still collected when it is the empty string, because the string \<open>find\<close> returns is
  tested for truthiness.
\<close>

lemma notAllowedFields_eq:
  "notAllowedFields pc b =
     filter (\<lambda>k. k \<notin> set (map fst (declaredFields pc)) \<or> k = []) (map fst b)"
  by (simp add: notAllowedFields_def not_find_iff)

lemma missingFields_eq:
  "missingFields pc b =
     filter (\<lambda>f. map_of (declaredFields pc) f = Some True \<and> (f \<notin> set (map fst b) \<or> f = []))
       (map fst (declaredFields pc))"
  by (simp add: missingFields_def not_find_iff)

lemma disallowed_reported_first:
  "restrictedBody pc \<Longrightarrow> notAllowedFields pc b \<noteq> [] \<Longrightarrow>
   checkBody pc b = Some (BadRequestException (NotAllowedFields (notAllowedFields pc b)))"
  by (simp add: checkBody_def)

lemma missing_reported:
  "\<not> restrictedBody pc \<or> notAllowedFields pc b = [] \<Longrightarrow> missingFields pc b \<noteq> [] \<Longrightarrow>
   checkBody pc b = Some (BadRequestException (MandatoryFields (missingFields pc b)))"
  by (auto simp: checkBody_def)

text \<open>The examples of the specification.\<close>

lemma mandatory_examples:
  "checkBody \<lparr>path = p, bodyFields = Some [(''a'', True), (''b'', False)],
              restrictedBody = False, scheduleNotification = None\<rparr> []
     = Some (BadRequestException (MandatoryFields [''a'']))"
  "checkBody \<lparr>path = p, bodyFields = Some [(''a'', True), (''b'', False)],
              restrictedBody = False, scheduleNotification = None\<rparr> [(''a'', JNum 1)]
     = None"
  by (simp_all add: body_simps)

lemma restricted_example:
  "checkBody \<lparr>path = p, bodyFields = Some [(''a'', True)],
              restrictedBody = True, scheduleNotification = None\<rparr>
     [(''a'', JNum 1), (''z'', JNum 2)]
     = Some (BadRequestException (NotAllowedFields [''z'']))"
  by (simp add: body_simps)

text \<open>
  C3. A declared mandatory field is to be collected as missing only when it does not
  appear among the keys of the request body. On a rule whose mandatory field has the
  empty name and a body that holds that field, the request is refused all the same, with
  the empty name reported as missing.
\<close>

theorem unnamed_field_reported_missing:
  "map_of (declaredFields unnamed_mandatory) '''' = Some True
   \<and> map_of [('''', JNum 1)] '''' = Some (JNum 1)
   \<and> resolveRoutes sample_env
         (sample_config\<lparr>routes := [(''post'', ArrayConfig [PostApiRule unnamed_mandatory])]\<rparr>)
         sample_params [('''', JNum 1)] sample_post
       = (Inl (BadRequestException (MandatoryFields [''''])), [])"
  by (simp add: resolveRoutes_def sample_simps body_simps)

text \<open>
  C4. Under \<open>restrictedBody\<close> a key of the request body is to be collected as
  disallowed only when it is absent from the declared fields. On a rule that declares
  the field with the empty name and a body whose only key is that field, the request is
  refused all the same, with the empty name reported as not allowed.
\<close>

theorem unnamed_field_reported_disallowed:
  "map_of (declaredFields unnamed_optional) '''' = Some False
   \<and> restrictedBody unnamed_optional
   \<and> resolveRoutes sample_env
         (sample_config\<lparr>routes := [(''post'', ArrayConfig [PostApiRule unnamed_optional])]\<rparr>)
         sample_params [('''', JNum 1)] sample_post
       = (Inl (BadRequestException (NotAllowedFields [''''])), [])"
  by (simp add: resolveRoutes_def sample_simps body_simps)

section \<open>The notification\<close>

lemma resolve_guarded_served:
  assumes "methodEntry (req_method req) (routes c)
             = Some (k, ArrayConfig (pre @ PostApiRule pc # post))"
      and "\<forall>x\<in>set pre. passedOver e c (normalizePath e (wildcard ps)) x"
      and "pathMatched e c (normalizePath e (wildcard ps)) (PostApiRule pc)"
      and "checkBody pc b = None"
      and "getRequestedData e c (repoRootUrl1 ps) (repoRootUrl2 ps) = Inr (Some v)"
      and "truthy v"
  shows "resolveRoutes e c ps b req = notify e pc b v"
proof -
  have "locationMatches e c (path pc) (normalizePath e (wildcard ps)) = Some True"
    using assms(3) by (simp add: pathMatched_def rulePath_def)
  then have "tryRule e c b (normalizePath e (wildcard ps)) (repoRootUrl1 ps) (repoRootUrl2 ps)
               (PostApiRule pc) = Some (notify e pc b v)"
    using assms(4,5,6) by simp
  then show ?thesis
    using tryRule_commit[OF assms(1,2,3), of b] by simp
qed

lemma notify_calls:
  "snd (notify e pc b v) =
     (case scheduleNotification pc of
        None \<Rightarrow> []
      | Some nc \<Rightarrow>
          (case map_of b (followProp nc) of
             None \<Rightarrow> []
           | Some endPoint \<Rightarrow>
               if truthy endPoint
               then (case new_URL e endPoint of
                       None \<Rightarrow> []
                     | Some url \<Rightarrow>
                         [\<lparr>delay_ms = timeoutInSecond nc * 1000,
                           call_method =
                             (case notificationMethod nc of None \<Rightarrow> ''GET'' | Some m \<Rightarrow> m),
                           call_url = url,
                           call_timeout = 5000\<rparr>])
               else []))"
  by (simp add: notify_def getProp_def split: option.splits)

lemma notify_armed:
  assumes "scheduleNotification pc = Some nc"
      and "map_of b (followProp nc) = Some endPoint"
      and "truthy endPoint"
      and "new_URL e endPoint = Some url"
  shows "notify e pc b v =
           (Inr (Data v),
            [\<lparr>delay_ms = timeoutInSecond nc * 1000,
              call_method = (case notificationMethod nc of None \<Rightarrow> ''GET'' | Some m \<Rightarrow> m),
              call_url = url,
              call_timeout = 5000\<rparr>])"
  using assms by (simp add: notify_def getProp_def)

lemma notify_malformed:
  assumes "scheduleNotification pc = Some nc"
      and "map_of b (followProp nc) = Some endPoint"
  shows "(truthy endPoint \<and> new_URL e endPoint = None \<longrightarrow>
            notify e pc b v = (Inl (Uncaught InvalidURL), []))
         \<and> (\<not> truthy endPoint \<longrightarrow> notify e pc b v = (Inr (Data v), []))"
  using assms by (simp add: notify_def getProp_def)

text \<open>
  C5, as the code has it. For a matched Guarded Rule whose body check and data lookup
  succeed, a call is scheduled if and only if the rule declares a notification policy,
  the request body holds a truthy value at \<open>followProp\<close> and the URL constructor accepts
  that value. Then exactly one call is scheduled, after \<open>timeoutInSecond * 1000\<close>
  milliseconds, to the parsed URL, with the policy's method or GET and a timeout of 5000
  milliseconds, and the data is returned. When the body has no field \<open>followProp\<close>, no
  call is scheduled.
\<close>

theorem notification_armed:
  assumes "methodEntry (req_method req) (routes c)
             = Some (k, ArrayConfig (pre @ PostApiRule pc # post))"
      and "\<forall>x\<in>set pre. passedOver e c (normalizePath e (wildcard ps)) x"
      and "pathMatched e c (normalizePath e (wildcard ps)) (PostApiRule pc)"
      and "checkBody pc b = None"
      and "getRequestedData e c (repoRootUrl1 ps) (repoRootUrl2 ps) = Inr (Some v)"
      and "truthy v"
  shows "(snd (resolveRoutes e c ps b req) \<noteq> [] \<longleftrightarrow>
            (\<exists>nc endPoint url.
                scheduleNotification pc = Some nc \<and> map_of b (followProp nc) = Some endPoint
                \<and> truthy endPoint \<and> new_URL e endPoint = Some url))
         \<and> (\<forall>nc endPoint url.
                scheduleNotification pc = Some nc \<and> map_of b (followProp nc) = Some endPoint
                \<and> truthy endPoint \<and> new_URL e endPoint = Some url \<longrightarrow>
                resolveRoutes e c ps b req =
                  (Inr (Data v),
                   [\<lparr>delay_ms = timeoutInSecond nc * 1000,
                     call_method =
                       (case notificationMethod nc of None \<Rightarrow> ''GET'' | Some m \<Rightarrow> m),
                     call_url = url,
                     call_timeout = 5000\<rparr>]))
         \<and> (\<forall>nc. scheduleNotification pc = Some nc \<and> map_of b (followProp nc) = None \<longrightarrow>
                snd (resolveRoutes e c ps b req) = [])"
proof -
  have res: "resolveRoutes e c ps b req = notify e pc b v"
    using assms by (rule resolve_guarded_served)
  have iff: "snd (notify e pc b v) \<noteq> [] \<longleftrightarrow>
            (\<exists>nc endPoint url.
                scheduleNotification pc = Some nc \<and> map_of b (followProp nc) = Some endPoint
                \<and> truthy endPoint \<and> new_URL e endPoint = Some url)"
    by (auto simp: notify_calls split: option.splits)
  have absent: "snd (notify e pc b v) = []"
    if "scheduleNotification pc = Some nc" and "map_of b (followProp nc) = None" for nc
    using that by (simp add: notify_calls)
  show ?thesis
    unfolding res using iff notify_armed[of pc _ b _ e _ v] absent by blast
qed

text \<open>
  The example of the specification: \<open>followProp = cb\<close>, \<open>timeoutInSecond = 2\<close>, no
  method declared; a body with \<open>cb\<close> arms one call, a body without it none.
\<close>

theorem notification_armed_witness:
  "checkBody sample_guarded [(''a'', JNum 1), (''cb'', JStr ''https://example.com/hook'')] = None
   \<and> checkBody sample_guarded [(''a'', JNum 1)] = None
   \<and> getRequestedData sample_env sample_config
        (repoRootUrl1 sample_params) (repoRootUrl2 sample_params)
       = Inr (Some (JArr [JNum 1, JNum 2]))
   \<and> resolveRoutes sample_env sample_config sample_params
        [(''a'', JNum 1), (''cb'', JStr ''https://example.com/hook'')] sample_post
       = (Inr (Data (JArr [JNum 1, JNum 2])),
          [\<lparr>delay_ms = 2000, call_method = ''GET'', call_url = ''https://example.com/hook'',
            call_timeout = 5000\<rparr>])
   \<and> snd (resolveRoutes sample_env sample_config sample_params [(''a'', JNum 1)] sample_post)
       = []"
proof -
  let ?ep = "normalizePath sample_env (wildcard sample_params)"
  let ?pre = "[StringPath ''users'', OtherConfig (JNum 3)]"
  let ?post = "[StringPath ''items'']"
  let ?b1 = "[(''a'', JNum 1), (''cb'', JStr ''https://example.com/hook'')]"
  let ?b2 = "[(''a'', JNum 1)]"
  let ?nc = "\<lparr>followProp = ''cb'', notificationMethod = None, timeoutInSecond = 2\<rparr>"
  have e: "methodEntry (req_method sample_post) (routes sample_config)
             = Some (''post'', ArrayConfig (?pre @ PostApiRule sample_guarded # ?post))"
    by (simp add: sample_simps)
  have p: "\<forall>x\<in>set ?pre. passedOver sample_env sample_config ?ep x"
    by (simp add: sample_simps)
  have m: "pathMatched sample_env sample_config ?ep (PostApiRule sample_guarded)"
    by (simp add: sample_simps)
  have v1: "checkBody sample_guarded ?b1 = None"
    by (simp add: sample_guarded_def body_simps)
  have v2: "checkBody sample_guarded ?b2 = None"
    by (simp add: sample_guarded_def body_simps)
  have d: "getRequestedData sample_env sample_config
             (repoRootUrl1 sample_params) (repoRootUrl2 sample_params)
            = Inr (Some (JArr [JNum 1, JNum 2]))"
    by (simp add: getRequestedData_def sample_simps walk_simps)
  have t: "truthy (JArr [JNum 1, JNum 2])"
    by simp
  have policy: "scheduleNotification sample_guarded = Some ?nc"
    by (simp add: sample_guarded_def)
  have armed: "map_of ?b1 (followProp ?nc) = Some (JStr ''https://example.com/hook'')
               \<and> truthy (JStr ''https://example.com/hook'')
               \<and> new_URL sample_env (JStr ''https://example.com/hook'')
                   = Some ''https://example.com/hook''"
    by (simp add: sample_env_def)
  have absent: "map_of ?b2 (followProp ?nc) = None"
    by simp
  have r1: "resolveRoutes sample_env sample_config sample_params ?b1 sample_post
       = (Inr (Data (JArr [JNum 1, JNum 2])),
          [\<lparr>delay_ms = 2000, call_method = ''GET'', call_url = ''https://example.com/hook'',
            call_timeout = 5000\<rparr>])"
    using notification_armed[OF e p m v1 d t] policy armed by simp
  have r2: "snd (resolveRoutes sample_env sample_config sample_params ?b2 sample_post) = []"
    using notification_armed[OF e p m v2 d t] policy absent by blast
  show ?thesis
    using v1 v2 d r1 r2 by simp
qed

text \<open>
  The claim as it was stated fails: the policy is declared and the body holds the
  non-empty value \<open>not a url\<close> at \<open>cb\<close>, the body check and the data lookup succeed, and
  no call is scheduled.
\<close>

theorem notification_armed_counterexample:
  "checkBody sample_guarded [(''a'', JNum 1), (''cb'', JStr ''not a url'')] = None
   \<and> getRequestedData sample_env sample_config
        (repoRootUrl1 sample_params) (repoRootUrl2 sample_params)
       = Inr (Some (JArr [JNum 1, JNum 2]))
   \<and> scheduleNotification sample_guarded
       = Some \<lparr>followProp = ''cb'', notificationMethod = None, timeoutInSecond = 2\<rparr>
   \<and> map_of [(''a'', JNum 1), (''cb'', JStr ''not a url'')] ''cb'' = Some (JStr ''not a url'')
   \<and> truthy (JStr ''not a url'')
   \<and> snd (resolveRoutes sample_env sample_config sample_params
             [(''a'', JNum 1), (''cb'', JStr ''not a url'')] sample_post) = []"
  by (simp add: resolveRoutes_def getRequestedData_def notify_def getProp_def
        sample_simps body_simps walk_simps)

text \<open>
  C8, as the code has it. For a matched Guarded Rule with a notification policy whose
  body check and data lookup succeed: when the body's value at \<open>followProp\<close> is truthy
  and the URL constructor rejects it, the resolution ends in the constructor's error,
  which nothing catches: no bad-request error, no data and no call scheduled. When the
  value is present and falsy, it is ignored and the data is returned.
\<close>

theorem malformed_url_uncaught:
  assumes "methodEntry (req_method req) (routes c)
             = Some (k, ArrayConfig (pre @ PostApiRule pc # post))"
      and "\<forall>x\<in>set pre. passedOver e c (normalizePath e (wildcard ps)) x"
      and "pathMatched e c (normalizePath e (wildcard ps)) (PostApiRule pc)"
      and "checkBody pc b = None"
      and "getRequestedData e c (repoRootUrl1 ps) (repoRootUrl2 ps) = Inr (Some v)"
      and "truthy v"
      and "scheduleNotification pc = Some nc"
      and "map_of b (followProp nc) = Some endPoint"
  shows "(truthy endPoint \<and> new_URL e endPoint = None \<longrightarrow>
            resolveRoutes e c ps b req = (Inl (Uncaught InvalidURL), []))
         \<and> (\<not> truthy endPoint \<longrightarrow> resolveRoutes e c ps b req = (Inr (Data v), []))"
proof -
  have "resolveRoutes e c ps b req = notify e pc b v"
    using assms(1-6) by (rule resolve_guarded_served)
  then show ?thesis
    using notify_malformed[OF assms(7,8), of e v] by simp
qed

theorem malformed_url_uncaught_witness:
  "checkBody sample_guarded [(''a'', JNum 1), (''cb'', JStr ''ftp.example.com'')] = None
   \<and> new_URL sample_env (JStr ''ftp.example.com'') = None
   \<and> resolveRoutes sample_env sample_config sample_params
        [(''a'', JNum 1), (''cb'', JStr ''ftp.example.com'')] sample_post
       = (Inl (Uncaught InvalidURL), [])
   \<and> checkBody sample_guarded [(''a'', JNum 1), (''cb'', JStr '''')] = None
   \<and> resolveRoutes sample_env sample_config sample_params
        [(''a'', JNum 1), (''cb'', JStr '''')] sample_post
       = (Inr (Data (JArr [JNum 1, JNum 2])), [])"
proof -
  let ?ep = "normalizePath sample_env (wildcard sample_params)"
  let ?pre = "[StringPath ''users'', OtherConfig (JNum 3)]"
  let ?post = "[StringPath ''items'']"
  let ?b1 = "[(''a'', JNum 1), (''cb'', JStr ''ftp.example.com'')]"
  let ?b2 = "[(''a'', JNum 1), (''cb'', JStr '''')]"
  let ?nc = "\<lparr>followProp = ''cb'', notificationMethod = None, timeoutInSecond = 2\<rparr>"
  have e: "methodEntry (req_method sample_post) (routes sample_config)
             = Some (''post'', ArrayConfig (?pre @ PostApiRule sample_guarded # ?post))"
    by (simp add: sample_simps)
  have p: "\<forall>x\<in>set ?pre. passedOver sample_env sample_config ?ep x"
    by (simp add: sample_simps)
  have m: "pathMatched sample_env sample_config ?ep (PostApiRule sample_guarded)"
    by (simp add: sample_simps)
  have v1: "checkBody sample_guarded ?b1 = None"
    by (simp add: sample_guarded_def body_simps)
  have v2: "checkBody sample_guarded ?b2 = None"
    by (simp add: sample_guarded_def body_simps)
  have d: "getRequestedData sample_env sample_config
             (repoRootUrl1 sample_params) (repoRootUrl2 sample_params)
            = Inr (Some (JArr [JNum 1, JNum 2]))"
    by (simp add: getRequestedData_def sample_simps walk_simps)
  have t: "truthy (JArr [JNum 1, JNum 2])"
    by simp
  have policy: "scheduleNotification sample_guarded = Some ?nc"
    by (simp add: sample_guarded_def)
  have f1: "map_of ?b1 (followProp ?nc) = Some (JStr ''ftp.example.com'')"
    by simp
  have f2: "map_of ?b2 (followProp ?nc) = Some (JStr '''')"
    by simp
  have u: "new_URL sample_env (JStr ''ftp.example.com'') = None"
    by (simp add: sample_env_def)
  have r1: "resolveRoutes sample_env sample_config sample_params ?b1 sample_post
              = (Inl (Uncaught InvalidURL), [])"
    using malformed_url_uncaught[OF e p m v1 d t policy f1] u by simp
  have r2: "resolveRoutes sample_env sample_config sample_params ?b2 sample_post
              = (Inr (Data (JArr [JNum 1, JNum 2])), [])"
    using malformed_url_uncaught[OF e p m v2 d t policy f2] by simp
  show ?thesis
    using v1 v2 u r1 r2 by simp
qed

text \<open>
  The claim as it was stated fails: the value \<open>example.com/hook\<close> at \<open>cb\<close> is not a
  URL, and the resolution ends in the uncaught error of the URL constructor, not in a
  bad-request error.
\<close>

theorem malformed_url_counterexample:
  "map_of [(''a'', JNum 1), (''cb'', JStr ''example.com/hook'')] ''cb''
     = Some (JStr ''example.com/hook'')
   \<and> new_URL sample_env (JStr ''example.com/hook'') = None
   \<and> resolveRoutes sample_env sample_config sample_params
        [(''a'', JNum 1), (''cb'', JStr ''example.com/hook'')] sample_post
       = (Inl (Uncaught InvalidURL), [])"
  by (simp add: resolveRoutes_def getRequestedData_def notify_def getProp_def
        sample_simps body_simps walk_simps)

section \<open>The statement after the loop\<close>

text \<open>
  Line 190 (\<open>return params\<close>) is never reached: a turn of the loop on a matching key
  returns or throws, so \<open>methodFound\<close> is still false when the loop ends.
\<close>

lemma notify_not_params: "fst (notify e pc b v) \<noteq> Inr (Params ps')"
  by (simp add: notify_def split: option.splits property.splits)

lemma tryRule_not_params:
  "tryRule e c b ep r1 r2 r = Some res \<Longrightarrow> fst res \<noteq> Inr (Params ps')"
  by (cases r) (auto simp: notify_not_params split: option.splits sum.splits if_splits)

lemma scanRules_not_params: "fst (scanRules e c b ep r1 r2 rs) \<noteq> Inr (Params ps')"
  by (induction rs) (auto simp: tryRule_not_params split: option.splits)

lemma routesLoop_not_params: "fst (routesLoop e c ps b rm False rs) \<noteq> Inr (Params ps')"
  by (induction rs) (auto simp: scanRules_not_params split: method_config.splits if_splits)

lemma resolveRoutes_not_params: "fst (resolveRoutes e c ps b req) \<noteq> Inr (Params ps')"
  by (simp add: resolveRoutes_def routesLoop_not_params)

end
